theory Spec2Isabelle
  imports Complex_Main "HOL-Library.AList" "HOL-Library.Multiset"
begin

section \<open>JavaScript values and strings\<close>

text \<open>
  The code under verification is the TypeScript of
  \<^verbatim>\<open>docs/06 (code generation and preview)\<close>: the classes
  \<^verbatim>\<open>TemplateEngine\<close>, \<^verbatim>\<open>CodeGenerator\<close> and
  \<^verbatim>\<open>DynamicImportManager\<close>.

  A JavaScript string is modelled as a \<^typ>\<open>string\<close>; one \<^typ>\<open>char\<close> is one
  UTF-16 code unit below 256. A render context (\<^verbatim>\<open>Record<string, any>\<close>) is an
  association list from keys to values; the first entry of a key is the property.
  Values are the JSON-like data a context holds. Numbers are finite and exact (type
  \<^typ>\<open>rat\<close>): NaN, the infinities and binary rounding are not modelled. Arrays and
  objects carry a reference (a \<^typ>\<open>nat\<close>), which is all that \<^verbatim>\<open>==\<close> looks at
  when it compares two of them. Properties inherited from the built-in prototypes
  (\<^verbatim>\<open>toString\<close>, \<^verbatim>\<open>constructor\<close>, ...) are not modelled: only own
  properties, array and string indices and \<^verbatim>\<open>length\<close> are. So the model stands for
  the code on paths no segment of which names an inherited property; on the others the
  code reads the inherited property, or raises what its accessor raises, where the model
  gives \<^verbatim>\<open>undefined\<close>. Values are plain data: \<^verbatim>\<open>String(value)\<close> never throws on
  them.
\<close>

datatype jsval =
    JUndefined
  | JNull
  | JBool bool
  | JNum rat
  | JStr string
  | JArr nat "jsval list"
  | JObj nat "(string \<times> jsval) list"

type_synonym render_context = "(string \<times> jsval) list"

datatype error = Error string | TypeError

subsection \<open>Character classes of the regular expressions\<close>

definition is_space :: "char \<Rightarrow> bool" where
  \<comment> \<open>\<^verbatim>\<open>\s\<close>, and the characters \<^verbatim>\<open>trim\<close> removes, among the first 256 code units\<close>
  "is_space c \<longleftrightarrow> c \<in> {CHR 0x09, CHR 0x0A, CHR 0x0B, CHR 0x0C, CHR 0x0D, CHR '' '', CHR 0xA0}"

definition is_digit :: "char \<Rightarrow> bool" where
  \<comment> \<open>\<^verbatim>\<open>\d\<close>\<close>
  "is_digit c \<longleftrightarrow> c \<in> set ''0123456789''"

definition is_word :: "char \<Rightarrow> bool" where
  \<comment> \<open>\<^verbatim>\<open>\w\<close>\<close>
  "is_word c \<longleftrightarrow>
     c \<in> set ''abcdefghijklmnopqrstuvwxyzABCDEFGHIJKLMNOPQRSTUVWXYZ0123456789_''"

subsection \<open>String methods\<close>

definition startsWith :: "string \<Rightarrow> string \<Rightarrow> bool" where
  "startsWith s p \<longleftrightarrow> take (length p) s = p"

definition endsWith :: "string \<Rightarrow> string \<Rightarrow> bool" where
  "endsWith s p \<longleftrightarrow> length p \<le> length s \<and> drop (length s - length p) s = p"

definition trim :: "string \<Rightarrow> string" where
  "trim s = rev (dropWhile is_space (rev (dropWhile is_space s)))"

fun str_includes :: "string \<Rightarrow> string \<Rightarrow> bool" where
  "str_includes [] p = (p = [])"
| "str_includes (c # cs) p = (startsWith (c # cs) p \<or> str_includes cs p)"

fun split_char :: "char \<Rightarrow> string \<Rightarrow> string list" where
  \<comment> \<open>\<^verbatim>\<open>s.split(c)\<close> for a one-character separator: never the empty list\<close>
  "split_char sep [] = [[]]"
| "split_char sep (c # cs) =
     (let r = split_char sep cs
      in if c = sep then [] # r else (c # hd r) # tl r)"

fun split_eqeq :: "string \<Rightarrow> string list" where
  \<comment> \<open>\<^verbatim>\<open>s.split('==')\<close>: the occurrences are taken from the left, without overlap\<close>
  "split_eqeq (a # b # cs) =
     (if a = CHR ''='' \<and> b = CHR ''='' then [] # split_eqeq cs
      else (let r = split_eqeq (b # cs) in (a # hd r) # tl r))"
| "split_eqeq cs = [cs]"

function split_ws :: "string \<Rightarrow> string list" where
  \<comment> \<open>\<^verbatim>\<open>s.split(/\s+/)\<close>: a separator is a maximal run of white space\<close>
  "split_ws s =
     (let h = takeWhile (\<lambda>c. \<not> is_space c) s;
          r = dropWhile (\<lambda>c. \<not> is_space c) s
      in if r = [] then [h] else h # split_ws (dropWhile is_space r))"
  by pat_completeness auto
termination
proof (relation "measure length")
  show "wf (measure length)" by simp
next
  fix s :: string and h r
  assume r: "r = dropWhile (\<lambda>c. \<not> is_space c) s" and ne: "r \<noteq> []"
  from ne obtain c cs where rc: "r = c # cs" by (cases r) auto
  with r have "is_space c" by (metis hd_dropWhile list.sel(1) ne)
  then have "length (dropWhile is_space r) \<le> length cs"
    using rc by (simp add: length_dropWhile_le)
  moreover have "length r \<le> length s" using r by (simp add: length_dropWhile_le)
  ultimately show "(dropWhile is_space r, s) \<in> measure length" using rc by simp
qed

declare split_ws.simps [simp del]

fun join :: "string \<Rightarrow> string list \<Rightarrow> string" where
  \<comment> \<open>\<^verbatim>\<open>xs.join(sep)\<close>\<close>
  "join sep [] = []"
| "join sep [x] = x"
| "join sep (x # y # ys) = x @ sep @ join sep (y # ys)"

subsection \<open>Numbers\<close>

definition digit_char :: "nat \<Rightarrow> char" where
  "digit_char d = ''0123456789'' ! d"

function nat_digits :: "nat \<Rightarrow> string" where
  "nat_digits n = (if n < 10 then [digit_char n] else nat_digits (n div 10) @ [digit_char (n mod 10)])"
  by pat_completeness auto
termination
  by (relation "measure id") auto

declare nat_digits.simps [simp del]

fun frac_digits :: "nat \<Rightarrow> rat \<Rightarrow> string" where
  "frac_digits 0 f = []"
| "frac_digits (Suc k) f =
     (if f = 0 then []
      else (let d = nat \<lfloor>f * 10\<rfloor> in digit_char d # frac_digits k (f * 10 - of_nat d)))"

definition number_string :: "rat \<Rightarrow> string" where
  \<comment> \<open>\<^verbatim>\<open>String(n)\<close> for a number: the decimal expansion, cut after 20 fraction digits.
      It is what JavaScript prints for an integer below \<open>10\<^sup>2\<^sup>1\<close> and for a decimal of at
      most 15 digits that is not below \<open>10\<^sup>-\<^sup>6\<close>.\<close>
  "number_string r =
     (let a = \<bar>r\<bar>; ip = nat \<lfloor>a\<rfloor>; fr = a - of_nat ip
      in (if r < 0 then ''-'' else [])
         @ nat_digits ip
         @ (if fr = 0 then [] else ''.'' @ frac_digits 20 fr))"

definition digit_value :: "char \<Rightarrow> nat" where
  "digit_value c = of_char c - 48"

definition digits_value :: "string \<Rightarrow> nat" where
  "digits_value ds = foldl (\<lambda>n c. 10 * n + digit_value c) 0 ds"

definition is_numeric_literal :: "string \<Rightarrow> bool" where
  \<comment> \<open>\<^verbatim>\<open>/^-?\d+(\.\d+)?$/.test(v)\<close>\<close>
  "is_numeric_literal v =
     (let u = (if startsWith v ''-'' then tl v else v);
          ip = takeWhile is_digit u;
          r = dropWhile is_digit u
      in ip \<noteq> [] \<and> (r = [] \<or> (hd r = CHR ''.'' \<and> tl r \<noteq> [] \<and> list_all is_digit (tl r))))"

definition parseFloat :: "string \<Rightarrow> rat" where
  \<comment> \<open>\<^verbatim>\<open>parseFloat(v)\<close> on a string that passed \<^const>\<open>is_numeric_literal\<close>: its exact
      decimal value\<close>
  "parseFloat v =
     (let u = (if startsWith v ''-'' then tl v else v);
          ip = takeWhile is_digit u;
          fp = drop 1 (dropWhile is_digit u);
          a = of_nat (digits_value ip) + of_nat (digits_value fp) / 10 ^ length fp
      in if startsWith v ''-'' then - a else a)"

subsection \<open>Conversions and operators\<close>

fun truthy :: "jsval \<Rightarrow> bool" where
  \<comment> \<open>ToBoolean: what \<^verbatim>\<open>&&\<close>, \<^verbatim>\<open>?:\<close> and \<^verbatim>\<open>!\<close> test\<close>
  "truthy JUndefined = False"
| "truthy JNull = False"
| "truthy (JBool b) = b"
| "truthy (JNum r) = (r \<noteq> 0)"
| "truthy (JStr s) = (s \<noteq> [])"
| "truthy (JArr r xs) = True"
| "truthy (JObj r kvs) = True"

fun jsString :: "jsval \<Rightarrow> string" where
  \<comment> \<open>\<^verbatim>\<open>String(value)\<close>; an array is its elements joined by commas, with
      \<^verbatim>\<open>null\<close> and \<^verbatim>\<open>undefined\<close> elements left empty\<close>
  "jsString JUndefined = ''undefined''"
| "jsString JNull = ''null''"
| "jsString (JBool b) = (if b then ''true'' else ''false'')"
| "jsString (JNum r) = number_string r"
| "jsString (JStr s) = s"
| "jsString (JArr r xs) =
     join '','' (map (\<lambda>v. if v = JUndefined \<or> v = JNull then [] else jsString v) xs)"
| "jsString (JObj r kvs) = ''[object Object]''"

definition array_index :: "string \<Rightarrow> nat option" where
  \<comment> \<open>a property key that is an array index: a decimal numeral without leading zero\<close>
  "array_index key =
     (if key = ''0'' \<or> (key \<noteq> [] \<and> list_all is_digit key \<and> hd key \<noteq> CHR ''0'')
      then Some (digits_value key) else None)"

fun getProp :: "jsval \<Rightarrow> string \<Rightarrow> jsval" where
  \<comment> \<open>\<^verbatim>\<open>obj[key]\<close> on a value that passed the \<^verbatim>\<open>obj &&\<close> test\<close>
  "getProp (JObj r kvs) key = (case map_of kvs key of Some v \<Rightarrow> v | None \<Rightarrow> JUndefined)"
| "getProp (JArr r xs) key =
     (if key = ''length'' then JNum (of_nat (length xs))
      else (case array_index key of
              Some i \<Rightarrow> (if i < length xs then xs ! i else JUndefined)
            | None \<Rightarrow> JUndefined))"
| "getProp (JStr s) key =
     (if key = ''length'' then JNum (of_nat (length s))
      else (case array_index key of
              Some i \<Rightarrow> (if i < length s then JStr [s ! i] else JUndefined)
            | None \<Rightarrow> JUndefined))"
| "getProp v key = JUndefined"

definition string_to_number :: "string \<Rightarrow> rat option" where
  \<comment> \<open>ToNumber on a string, \<open>None\<close> for NaN: an empty or blank string is 0, a signed
      decimal numeral is its value. Exponents, the \<^verbatim>\<open>0x\<close>, \<^verbatim>\<open>0o\<close>,
      \<^verbatim>\<open>0b\<close> forms and \<^verbatim>\<open>Infinity\<close> are not modelled.\<close>
  "string_to_number s =
     (let t = trim s;
          signed = (startsWith t ''-'' \<or> startsWith t ''+'');
          u = (if signed then tl t else t);
          ip = takeWhile is_digit u;
          r = dropWhile is_digit u;
          fp = drop 1 r;
          a = of_nat (digits_value ip) + of_nat (digits_value fp) / 10 ^ length fp
      in if t = [] then Some 0
         else if (r = [] \<and> ip \<noteq> [])
               \<or> (startsWith r ''.'' \<and> list_all is_digit fp \<and> \<not> (ip = [] \<and> fp = []))
         then Some (if startsWith t ''-'' then - a else a)
         else None)"

fun to_number :: "jsval \<Rightarrow> rat option" where
  \<comment> \<open>ToNumber, \<open>None\<close> for NaN; an array or object goes through its string\<close>
  "to_number JUndefined = None"
| "to_number JNull = Some 0"
| "to_number (JBool b) = Some (if b then 1 else 0)"
| "to_number (JNum r) = Some r"
| "to_number (JStr s) = string_to_number s"
| "to_number v = string_to_number (jsString v)"

fun is_nullish :: "jsval \<Rightarrow> bool" where
  "is_nullish JUndefined = True"
| "is_nullish JNull = True"
| "is_nullish v = False"

fun loose_eq :: "jsval \<Rightarrow> jsval \<Rightarrow> bool" where
  \<comment> \<open>\<^verbatim>\<open>a == b\<close>: \<^verbatim>\<open>null\<close> and \<^verbatim>\<open>undefined\<close> equal each other and nothing
      else; strings compare as strings; two arrays or objects by reference; one of them
      against a string by its string; everything else as numbers\<close>
  "loose_eq (JStr x) (JStr y) = (x = y)"
| "loose_eq (JArr r xs) (JArr r' ys) = (r = r')"
| "loose_eq (JArr r xs) (JObj r' ys) = (r = r')"
| "loose_eq (JObj r xs) (JArr r' ys) = (r = r')"
| "loose_eq (JObj r xs) (JObj r' ys) = (r = r')"
| "loose_eq (JArr r xs) (JStr y) = (jsString (JArr r xs) = y)"
| "loose_eq (JObj r xs) (JStr y) = (jsString (JObj r xs) = y)"
| "loose_eq (JStr x) (JArr r ys) = (x = jsString (JArr r ys))"
| "loose_eq (JStr x) (JObj r ys) = (x = jsString (JObj r ys))"
| "loose_eq a b =
     (if is_nullish a \<or> is_nullish b then is_nullish a \<and> is_nullish b
      else (case (to_number a, to_number b) of
              (Some x, Some y) \<Rightarrow> x = y
            | _ \<Rightarrow> False))"

section \<open>The template engine\<close>

subsection \<open>Path and value resolution\<close>

definition resolvePath :: "string \<Rightarrow> render_context \<Rightarrow> jsval" where
  \<comment> \<open>\<^verbatim>\<open>path.split('.').reduce((obj, key) =>
        obj && obj[key] !== undefined ? obj[key] : undefined, context)\<close>,
      the expression shared by \<^verbatim>\<open>replaceVariables\<close>, \<^verbatim>\<open>processLoops\<close> and
      \<^verbatim>\<open>resolveValue\<close>\<close>
  "resolvePath path ctx =
     foldl (\<lambda>obj key. if truthy obj \<and> getProp obj key \<noteq> JUndefined
                       then getProp obj key else JUndefined)
           (JObj 0 ctx) (split_char CHR ''.'' path)"

definition resolveValue :: "string \<Rightarrow> render_context \<Rightarrow> jsval" where
  "resolveValue value ctx =
     (let v = trim value
      in if startsWith v [CHR 0x22] \<and> endsWith v [CHR 0x22]
         then JStr (take (length v - 2) (drop 1 v))
         else if is_numeric_literal v then JNum (parseFloat v)
         else if v = ''true'' then JBool True
         else if v = ''false'' then JBool False
         else if v = ''null'' then JNull
         else if v = ''undefined'' then JUndefined
         else resolvePath v ctx)"

subsection \<open>The four regular expressions\<close>

text \<open>
  Each expression is modelled by a function that tries it at the start of a string and
  returns the captured groups with the text after the match, as the backtracking matcher
  finds them. All four begin with \<^verbatim>\<open>{{\<close>, and in all four the text up to the closing
  \<^verbatim>\<open>}}\<close> is matched by \<^verbatim>\<open>\s\<close>, \<^verbatim>\<open>\w\<close> and \<^verbatim>\<open>[^}]\<close> only, none of which
  accepts \<^verbatim>\<open>}\<close>: so that text is the run of characters before the first \<^verbatim>\<open>}\<close>, and
  the match exists only if a second \<^verbatim>\<open>}\<close> follows it at once.

  Within the run, a greedy \<^verbatim>\<open>\s*\<close> or \<^verbatim>\<open>\s+\<close> takes the leading white space, the
  lazy \<^verbatim>\<open>[^}]+?\<close> takes the least that lets the rest match, and needs one character: when
  the run is white space only, the matcher backtracks and gives its last character to the
  group.
\<close>

definition not_close :: "char \<Rightarrow> bool" where
  \<comment> \<open>\<^verbatim>\<open>[^}]\<close>\<close>
  "not_close c \<longleftrightarrow> c \<noteq> CHR ''}''"

definition lazy_group :: "string \<Rightarrow> string" where
  \<comment> \<open>the group of \<^verbatim>\<open>\s*([^}]+?)\s*\<close> on a non-empty run\<close>
  "lazy_group b =
     (let t = dropWhile is_space b
      in if t = [] then [last b] else rev (dropWhile is_space (rev t)))"

definition match_variable :: "string \<Rightarrow> (string \<times> string) option" where
  \<comment> \<open>\<^verbatim>\<open>/\{\{\s*([^}]+?)\s*\}\}/\<close>: the path and the text after the match\<close>
  "match_variable s =
     (let r = drop 2 s; b = takeWhile not_close r; e = dropWhile not_close r
      in if startsWith s ''{{'' \<and> b \<noteq> [] \<and> startsWith e ''}}''
         then Some (lazy_group b, drop 2 e) else None)"

definition match_open :: "string \<Rightarrow> string \<Rightarrow> (string \<times> string) option" where
  \<comment> \<open>\<^verbatim>\<open>\{\{#if\s+([^}]+?)\s*\}\}\<close> and \<^verbatim>\<open>\{\{#each\s+([^}]+?)\s*\}\}\<close>, the keyword
      given as \<open>tag\<close>: a white space is required before the group\<close>
  "match_open tag s =
     (let r = drop (2 + length tag) s;
          b = takeWhile not_close r; e = dropWhile not_close r;
          w = takeWhile is_space b; t = dropWhile is_space b
      in if startsWith s (''{{'' @ tag) \<and> startsWith e ''}}'' \<and> w \<noteq> []
            \<and> (2 \<le> length w \<or> t \<noteq> [])
         then Some (lazy_group b, drop 2 e) else None)"

fun find_close :: "string \<Rightarrow> string \<Rightarrow> (string \<times> string) option" where
  \<comment> \<open>\<^verbatim>\<open>([\s\S]*?)\<close> followed by the literal \<open>close\<close>: the text up to its first
      occurrence, and the text after it\<close>
  "find_close close [] = (if close = [] then Some ([], []) else None)"
| "find_close close (c # cs) =
     (if startsWith (c # cs) close then Some ([], drop (length close) (c # cs))
      else (case find_close close cs of
              Some (b, r) \<Rightarrow> Some (c # b, r)
            | None \<Rightarrow> None))"

fun match_if_body :: "string \<Rightarrow> (string \<times> string option \<times> string) option" where
  \<comment> \<open>\<^verbatim>\<open>([\s\S]*?)(?:\{\{#else\}\}([\s\S]*?))?\{\{\/if\}\}\<close>: at each length of the first
      group the matcher tries the optional group first, then \<^verbatim>\<open>{{/if}}\<close> without it,
      then lengthens the first group\<close>
  "match_if_body [] = None"
| "match_if_body (c # cs) =
     (case (if startsWith (c # cs) ''{{#else}}''
            then find_close ''{{/if}}'' (drop 9 (c # cs)) else None) of
        Some (e, r) \<Rightarrow> Some ([], Some e, r)
      | None \<Rightarrow>
          (if startsWith (c # cs) ''{{/if}}'' then Some ([], None, drop 7 (c # cs))
           else (case match_if_body cs of
                   Some (i, e, r) \<Rightarrow> Some (c # i, e, r)
                 | None \<Rightarrow> None)))"

definition match_conditional :: "string \<Rightarrow> (string \<times> string \<times> string option \<times> string) option" where
  \<comment> \<open>\<^verbatim>\<open>conditionalRegex\<close>: condition, ifContent, elseContent (if the group took part)
      and the text after the match\<close>
  "match_conditional s =
     (case match_open ''#if'' s of
        Some (condition, r) \<Rightarrow>
          (case match_if_body r of
             Some (ifContent, elseContent, rest) \<Rightarrow> Some (condition, ifContent, elseContent, rest)
           | None \<Rightarrow> None)
      | None \<Rightarrow> None)"

definition match_loop :: "string \<Rightarrow> (string \<times> string \<times> string) option" where
  \<comment> \<open>\<^verbatim>\<open>loopRegex\<close>: itemsPath, content and the text after the match\<close>
  "match_loop s =
     (case match_open ''#each'' s of
        Some (itemsPath, r) \<Rightarrow>
          (case find_close ''{{/each}}'' r of
             Some (content, rest) \<Rightarrow> Some (itemsPath, content, rest)
           | None \<Rightarrow> None)
      | None \<Rightarrow> None)"

definition match_helper :: "string \<Rightarrow> (string \<times> string option \<times> string) option" where
  \<comment> \<open>\<^verbatim>\<open>/\{\{(\w+)(?:\s+([^}]+?))?\}\}/\<close>: helperName, argsString (if the group took
      part) and the text after the match. The name is the whole run of word characters: a
      shorter one would be followed by a word character, which neither \<^verbatim>\<open>\s+\<close> nor
      \<^verbatim>\<open>}}\<close> accepts. The group runs to the closing braces, trailing white space
      included.\<close>
  "match_helper s =
     (let r = drop 2 s;
          helperName = takeWhile is_word r; r1 = dropWhile is_word r;
          b = takeWhile not_close r1; e = dropWhile not_close r1;
          w = takeWhile is_space b; t = dropWhile is_space b
      in if startsWith s ''{{'' \<and> helperName \<noteq> []
         then (if startsWith e ''}}'' \<and> w \<noteq> [] \<and> (2 \<le> length w \<or> t \<noteq> [])
               then Some (helperName, Some (if t = [] then [last w] else t), drop 2 e)
               else if startsWith r1 ''}}'' then Some (helperName, None, drop 2 r1)
               else None)
         else None)"

subsection \<open>The engine and its stages\<close>

text \<open>
  \<^verbatim>\<open>template.replace(regex, callback)\<close> with a global expression scans from the left:
  where the expression matches, the callback's result is written and the scan goes on
  after the match (the result is not scanned again); elsewhere one character is copied.
  No expression here matches the empty string. A helper is a function from the argument
  list to a string; \<open>None\<close> stands for a helper that throws.
\<close>

type_synonym helper = "jsval list \<Rightarrow> string option"

record TemplateEngine =
  templates :: "string \<Rightarrow> string option"
  helpers :: "string \<Rightarrow> helper option"

definition newTemplateEngine :: TemplateEngine where
  "newTemplateEngine = \<lparr>templates = Map.empty, helpers = Map.empty\<rparr>"

definition registerTemplate :: "string \<Rightarrow> string \<Rightarrow> TemplateEngine \<Rightarrow> TemplateEngine" where
  "registerTemplate name template eng = eng\<lparr>templates := (templates eng)(name \<mapsto> template)\<rparr>"

definition registerHelper :: "string \<Rightarrow> helper \<Rightarrow> TemplateEngine \<Rightarrow> TemplateEngine" where
  "registerHelper name h eng = eng\<lparr>helpers := (helpers eng)(name \<mapsto> h)\<rparr>"

definition variableText :: "string \<Rightarrow> render_context \<Rightarrow> string" where
  \<comment> \<open>the callback of \<^verbatim>\<open>replaceVariables\<close>\<close>
  "variableText path ctx =
     (let v = resolvePath path ctx in if v \<noteq> JUndefined then jsString v else [])"

function replaceVariables :: "string \<Rightarrow> render_context \<Rightarrow> string" where
  "replaceVariables [] ctx = []"
| "replaceVariables (c # cs) ctx =
     (case match_variable (c # cs) of
        Some (path, rest) \<Rightarrow> variableText path ctx @ replaceVariables rest ctx
      | None \<Rightarrow> c # replaceVariables cs ctx)"
  by pat_completeness auto
termination
proof (relation "measure (\<lambda>(s, ctx). length s)")
  show "wf (measure (\<lambda>(s, ctx :: render_context). length s))" by simp
next
  fix c :: char and cs :: string and ctx :: render_context and x path rest
  assume m: "match_variable (c # cs) = Some x" and x: "(path, rest) = x"
  from m x have "rest = drop 2 (dropWhile not_close (drop 2 (c # cs)))"
    by (auto simp: match_variable_def Let_def split: if_splits)
  moreover have "length (dropWhile not_close (drop 2 (c # cs))) \<le> length cs"
    by (rule order_trans [OF length_dropWhile_le]) simp
  ultimately show "((rest, ctx), (c # cs, ctx)) \<in> measure (\<lambda>(s, ctx). length s)"
    by simp
next
  fix c :: char and cs :: string and ctx :: render_context
  show "((cs, ctx), (c # cs, ctx)) \<in> measure (\<lambda>(s, ctx). length s)" by simp
qed

definition conditionHolds :: "string \<Rightarrow> render_context \<Rightarrow> bool" where
  \<comment> \<open>\<^verbatim>\<open>conditionValue\<close> as the \<^verbatim>\<open>?:\<close> of the callback tests it\<close>
  "conditionHolds condition ctx =
     (if str_includes condition ''==''
      then (let parts = map trim (split_eqeq condition);
                leftValue = resolveValue (parts ! 0) ctx;
                rightValue = resolveValue (parts ! 1) ctx
            in loose_eq leftValue rightValue)
      else truthy (resolveValue condition ctx))"

function processConditionals :: "string \<Rightarrow> render_context \<Rightarrow> string" where
  "processConditionals [] ctx = []"
| "processConditionals (c # cs) ctx =
     (case match_conditional (c # cs) of
        Some (condition, ifContent, elseContent, rest) \<Rightarrow>
          (if conditionHolds condition ctx then ifContent
           else (case elseContent of Some e \<Rightarrow> e | None \<Rightarrow> []))
          @ processConditionals rest ctx
      | None \<Rightarrow> c # processConditionals cs ctx)"
  by pat_completeness auto
termination
proof (relation "measure (\<lambda>(s, ctx). length s)")
  show "wf (measure (\<lambda>(s, ctx :: render_context). length s))" by simp
next
  fix c :: char and cs :: string and ctx :: render_context
    and x condition y ifContent z elseContent rest
  assume m: "match_conditional (c # cs) = Some x" and x: "(condition, y) = x"
    and y: "(ifContent, z) = y" and z: "(elseContent, rest) = z"
  have fc: "length r \<le> length s" if "find_close cl s = Some (b, r)" for cl s b r
    using that
    by (induction s arbitrary: b) (auto split: if_splits option.splits)
  have ib: "length r \<le> length s" if "match_if_body s = Some (i, e, r)" for s i e r
    using that
  proof (induction s arbitrary: i)
    case Nil
    then show ?case by simp
  next
    case (Cons a s)
    then show ?case
      by (auto split: if_splits option.splits dest!: fc)
  qed
  from m x y z obtain r where o: "match_open ''#if'' (c # cs) = Some (condition, r)"
    and b: "match_if_body r = Some (ifContent, elseContent, rest)"
    by (auto simp: match_conditional_def split: option.splits)
  from o have "r = drop 2 (dropWhile not_close (drop 5 (c # cs)))"
    by (auto simp: match_open_def Let_def split: if_splits)
  moreover have "length (dropWhile not_close (drop 5 (c # cs))) \<le> length cs"
    by (rule order_trans [OF length_dropWhile_le]) simp
  ultimately have "length r \<le> length cs" by simp
  with ib [OF b] show "((rest, ctx), (c # cs, ctx)) \<in> measure (\<lambda>(s, ctx). length s)"
    by simp
next
  fix c :: char and cs :: string and ctx :: render_context
  show "((cs, ctx), (c # cs, ctx)) \<in> measure (\<lambda>(s, ctx). length s)" by simp
qed

definition loopText :: "string \<Rightarrow> string \<Rightarrow> render_context \<Rightarrow> string" where
  \<comment> \<open>the callback of \<^verbatim>\<open>processLoops\<close>: nothing unless the path resolves to an array;
      each item is rendered in \<^verbatim>\<open>{...context, item, index}\<close> by the first two stages\<close>
  "loopText itemsPath content ctx =
     (case resolvePath itemsPath ctx of
        JArr r items \<Rightarrow>
          concat (map (\<lambda>(index, item).
                         let itemContext =
                               AList.update ''index'' (JNum (of_nat index))
                                 (AList.update ''item'' item ctx);
                             itemContent = replaceVariables content itemContext
                         in processConditionals itemContent itemContext)
                      (enumerate 0 items))
      | _ \<Rightarrow> [])"

function processLoops :: "string \<Rightarrow> render_context \<Rightarrow> string" where
  "processLoops [] ctx = []"
| "processLoops (c # cs) ctx =
     (case match_loop (c # cs) of
        Some (itemsPath, content, rest) \<Rightarrow> loopText itemsPath content ctx @ processLoops rest ctx
      | None \<Rightarrow> c # processLoops cs ctx)"
  by pat_completeness auto
termination
proof (relation "measure (\<lambda>(s, ctx). length s)")
  show "wf (measure (\<lambda>(s, ctx :: render_context). length s))" by simp
next
  fix c :: char and cs :: string and ctx :: render_context
    and x itemsPath y content rest
  assume m: "match_loop (c # cs) = Some x" and x: "(itemsPath, y) = x"
    and y: "(content, rest) = y"
  have fc: "length r \<le> length s" if "find_close cl s = Some (b, r)" for cl s b r
    using that
    by (induction s arbitrary: b) (auto split: if_splits option.splits)
  from m x y obtain r where o: "match_open ''#each'' (c # cs) = Some (itemsPath, r)"
    and b: "find_close ''{{/each}}'' r = Some (content, rest)"
    by (auto simp: match_loop_def split: option.splits)
  from o have "r = drop 2 (dropWhile not_close (drop 7 (c # cs)))"
    by (auto simp: match_open_def Let_def split: if_splits)
  moreover have "length (dropWhile not_close (drop 7 (c # cs))) \<le> length cs"
    by (rule order_trans [OF length_dropWhile_le]) simp
  ultimately have "length r \<le> length cs" by simp
  with fc [OF b] show "((rest, ctx), (c # cs, ctx)) \<in> measure (\<lambda>(s, ctx). length s)"
    by simp
next
  fix c :: char and cs :: string and ctx :: render_context
  show "((cs, ctx), (c # cs, ctx)) \<in> measure (\<lambda>(s, ctx). length s)" by simp
qed

definition helperText ::
  "TemplateEngine \<Rightarrow> string \<Rightarrow> string \<Rightarrow> string option \<Rightarrow> render_context \<Rightarrow> string" where
  \<comment> \<open>the callback of \<^verbatim>\<open>processHelpers\<close>: an unknown name keeps the matched text; a
      missing argument group defaults to the empty string; a helper that throws gives
      the empty string\<close>
  "helperText eng matched helperName argsString ctx =
     (case helpers eng helperName of
        None \<Rightarrow> matched
      | Some h \<Rightarrow>
          (let args = map (\<lambda>arg. resolveValue arg ctx)
                          (split_ws (case argsString of Some a \<Rightarrow> a | None \<Rightarrow> []))
           in case h args of Some out \<Rightarrow> out | None \<Rightarrow> []))"

function processHelpers :: "TemplateEngine \<Rightarrow> string \<Rightarrow> render_context \<Rightarrow> string" where
  "processHelpers eng [] ctx = []"
| "processHelpers eng (c # cs) ctx =
     (case match_helper (c # cs) of
        Some (helperName, argsString, rest) \<Rightarrow>
          helperText eng (take (length (c # cs) - length rest) (c # cs)) helperName argsString ctx
          @ processHelpers eng rest ctx
      | None \<Rightarrow> c # processHelpers eng cs ctx)"
  by pat_completeness auto
termination
proof (relation "measure (\<lambda>(eng, s, ctx). length s)")
  show "wf (measure (\<lambda>(eng :: TemplateEngine, s, ctx :: render_context). length s))" by simp
next
  fix eng :: TemplateEngine and c :: char and cs :: string and ctx :: render_context
    and x helperName y argsString rest
  assume m: "match_helper (c # cs) = Some x" and x: "(helperName, y) = x"
    and y: "(argsString, rest) = y"
  let ?r1 = "dropWhile is_word (drop 2 (c # cs))"
  from m x y have "rest = drop 2 (dropWhile not_close ?r1) \<or> rest = drop 2 ?r1"
    by (auto simp: match_helper_def Let_def split: if_splits)
  moreover have "length ?r1 \<le> length cs"
    by (rule order_trans [OF length_dropWhile_le]) simp
  moreover have "length (dropWhile not_close ?r1) \<le> length ?r1"
    by (rule length_dropWhile_le)
  ultimately have "length rest \<le> length cs" by auto
  then show "((eng, rest, ctx), (eng, c # cs, ctx)) \<in> measure (\<lambda>(eng, s, ctx). length s)"
    by simp
next
  fix eng :: TemplateEngine and c :: char and cs :: string and ctx :: render_context
  show "((eng, cs, ctx), (eng, c # cs, ctx)) \<in> measure (\<lambda>(eng, s, ctx). length s)" by simp
qed

definition render :: "TemplateEngine \<Rightarrow> string \<Rightarrow> render_context \<Rightarrow> error + string" where
  \<comment> \<open>\<^verbatim>\<open>!template\<close> holds for a missing template and for the empty string\<close>
  "render eng templateName ctx =
     (case templates eng templateName of
        None \<Rightarrow> Inl (Error (''Template not found: '' @ templateName))
      | Some template \<Rightarrow>
          if template = [] then Inl (Error (''Template not found: '' @ templateName))
          else (let result = replaceVariables template ctx;
                    result = processConditionals result ctx;
                    result = processLoops result ctx;
                    result = processHelpers eng result ctx
                in Inr result))"

section \<open>The code generator\<close>

text \<open>
  \<^verbatim>\<open>CodeGenerator\<close> keeps its template configurations in a \<^verbatim>\<open>Map\<close>, whose keys
  are listed in insertion order: an association list, written by \<^const>\<open>AList.update\<close>
  (an existing key keeps its place). The methods that analyse a component
  (\<^verbatim>\<open>extractState\<close>, \<^verbatim>\<open>generateJSXContent\<close>, \<^verbatim>\<open>generateComponentName\<close>, ...)
  are announced by the class but not written in the repository: \<^verbatim>\<open>analyzeComponent\<close>
  and \<^verbatim>\<open>generateComponentName\<close> are parameters of the model. Of a component
  only \<^verbatim>\<open>type\<close> is read here.
\<close>

datatype framework = React | Vue | Angular | Svelte

datatype language = Javascript | Typescript

record TemplateSet =
  component :: string
  page :: string
  styles :: string
  index :: string

record TemplateConfig =
  config_name :: string
  framework :: framework
  language :: language
  config_templates :: TemplateSet
  config_helpers :: "(string \<times> helper) list option"

record CodeGenerator =
  templateEngine :: TemplateEngine
  generator_templates :: "(string \<times> TemplateConfig) list"
  activeTemplate :: "string option"

record ComponentSchema =
  schema_id :: string
  schema_type :: string
  props :: "(string \<times> jsval) list"
  style :: "(string \<times> jsval) list"

record GenerateOptions =
  componentName :: "string option"
  description :: "string option"
  isModule :: "bool option"

record CodeFile =
  content :: string
  filename :: string

record GeneratedCode =
  main :: CodeFile
  styles_file :: CodeFile
  index_file :: CodeFile

definition newCodeGenerator :: CodeGenerator where
  \<comment> \<open>the constructor; \<^verbatim>\<open>registerCoreHelpers\<close> has an empty body\<close>
  "newCodeGenerator =
     \<lparr>templateEngine = newTemplateEngine, generator_templates = [], activeTemplate = None\<rparr>"

definition template_entries :: "TemplateSet \<Rightarrow> (string \<times> string) list" where
  \<comment> \<open>\<^verbatim>\<open>Object.entries(config.templates)\<close>\<close>
  "template_entries ts =
     [(''component'', component ts), (''page'', page ts), (''styles'', styles ts), (''index'', index ts)]"

definition generator_registerTemplate :: "TemplateConfig \<Rightarrow> CodeGenerator \<Rightarrow> CodeGenerator" where
  \<comment> \<open>\<^verbatim>\<open>CodeGenerator.registerTemplate\<close>\<close>
  "generator_registerTemplate config g =
     (let eng = foldl (\<lambda>e (key, template). registerTemplate (config_name config @ '':'' @ key) template e)
                      (templateEngine g) (template_entries (config_templates config));
          eng = (case config_helpers config of
                   Some hs \<Rightarrow> foldl (\<lambda>e (name, h). registerHelper name h e) eng hs
                 | None \<Rightarrow> eng)
      in g\<lparr>templateEngine := eng,
            generator_templates := AList.update (config_name config) config (generator_templates g)\<rparr>)"

definition setActiveTemplate :: "string \<Rightarrow> CodeGenerator \<Rightarrow> error + CodeGenerator" where
  "setActiveTemplate name g =
     (if map_of (generator_templates g) name = None
      then Inl (Error (''Template not found: '' @ name))
      else Inr (g\<lparr>activeTemplate := Some name\<rparr>))"

definition getDefaultTemplateName :: "CodeGenerator \<Rightarrow> string option" where
  \<comment> \<open>\<^verbatim>\<open>Array.from(this.templates.keys())[0]\<close>: \<^verbatim>\<open>undefined\<close> (\<open>None\<close>) when nothing
      is registered\<close>
  "getDefaultTemplateName g =
     (case generator_templates g of [] \<Rightarrow> None | (k, config) # rest \<Rightarrow> Some k)"

definition selectedTemplateName :: "CodeGenerator \<Rightarrow> string option" where
  \<comment> \<open>\<^verbatim>\<open>this.activeTemplate || this.getDefaultTemplateName()\<close>: \<^verbatim>\<open>null\<close> and the
      empty string are falsy\<close>
  "selectedTemplateName g =
     (case activeTemplate g of
        Some n \<Rightarrow> if n \<noteq> [] then Some n else getDefaultTemplateName g
      | None \<Rightarrow> getDefaultTemplateName g)"

definition name_text :: "string option \<Rightarrow> string" where
  \<comment> \<open>a template literal writes \<^verbatim>\<open>undefined\<close> as the word\<close>
  "name_text n = (case n of Some s \<Rightarrow> s | None \<Rightarrow> ''undefined'')"

definition or_else :: "string option \<Rightarrow> string \<Rightarrow> string" where
  \<comment> \<open>\<^verbatim>\<open>a || b\<close> on an optional string\<close>
  "or_else a b = (case a of Some s \<Rightarrow> if s \<noteq> [] then s else b | None \<Rightarrow> b)"

definition option_entries :: "GenerateOptions \<Rightarrow> (string \<times> jsval) list" where
  \<comment> \<open>the properties \<^verbatim>\<open>...options\<close> spreads\<close>
  "option_entries opts =
     (case componentName opts of Some n \<Rightarrow> [(''componentName'', JStr n)] | None \<Rightarrow> [])
     @ (case description opts of Some d \<Rightarrow> [(''description'', JStr d)] | None \<Rightarrow> [])
     @ (case isModule opts of Some b \<Rightarrow> [(''isModule'', JBool b)] | None \<Rightarrow> [])"

definition component_context ::
  "render_context \<Rightarrow> string \<Rightarrow> ComponentSchema \<Rightarrow> GenerateOptions \<Rightarrow> render_context" where
  \<comment> \<open>the object literal \<^verbatim>\<open>context\<close> of \<^verbatim>\<open>generateComponent\<close>, from the results of
      \<^verbatim>\<open>analyzeComponent\<close> and \<^verbatim>\<open>generateComponentName\<close>\<close>
  "component_context componentAnalysis generatedName node opts =
     foldl (\<lambda>obj (k, v). AList.update k v obj) componentAnalysis
       (option_entries opts
        @ [(''componentName'', JStr (or_else (componentName opts) generatedName)),
           (''componentDescription'',
              JStr (or_else (description opts) (schema_type node @ '' component'')))])"

definition generateComponent ::
  "(ComponentSchema \<Rightarrow> render_context) \<Rightarrow> (ComponentSchema \<Rightarrow> string) \<Rightarrow>
   CodeGenerator \<Rightarrow> ComponentSchema \<Rightarrow> GenerateOptions \<Rightarrow> error + GeneratedCode" where
  \<comment> \<open>The renders run before \<^verbatim>\<open>templateConfig.language\<close> is read; reading it from
      \<^verbatim>\<open>undefined\<close> is a \<^verbatim>\<open>TypeError\<close>.\<close>
  "generateComponent analyzeComponent generateComponentName g node opts =
     (let templateName = selectedTemplateName g;
          templateConfig = (case templateName of
                              Some n \<Rightarrow> map_of (generator_templates g) n
                            | None \<Rightarrow> None);
          ctx = component_context (analyzeComponent node) (generateComponentName node) node opts;
          cn = or_else (componentName opts) (generateComponentName node)
      in case render (templateEngine g) (name_text templateName @ '':component'') ctx of
           Inl e \<Rightarrow> Inl e
         | Inr mainCode \<Rightarrow>
      (case render (templateEngine g) (name_text templateName @ '':styles'') ctx of
           Inl e \<Rightarrow> Inl e
         | Inr styleCode \<Rightarrow>
      (case render (templateEngine g) (name_text templateName @ '':index'') ctx of
           Inl e \<Rightarrow> Inl e
         | Inr indexCode \<Rightarrow>
      (case templateConfig of
           None \<Rightarrow> Inl TypeError
         | Some config \<Rightarrow>
             Inr \<lparr>main = \<lparr>content = mainCode,
                          filename = cn @ ''.'' @ (if language config = Typescript then ''tsx'' else ''jsx'')\<rparr>,
                  styles_file = \<lparr>content = styleCode,
                                 filename = (if isModule opts = Some True then cn @ ''.module.css''
                                             else cn @ ''.css'')\<rparr>,
                  index_file = \<lparr>content = indexCode,
                                filename = ''index.'' @ (if language config = Typescript then ''ts'' else ''js'')\<rparr>\<rparr>))))"

section \<open>The dynamic import manager\<close>

text \<open>
  A usage weight is a number, compared with \<^verbatim>\<open>0.8\<close>; the model takes both as exact
  rationals. \<^verbatim>\<open>Array.prototype.sort\<close> is stable, and so is \<^const>\<open>sort_key\<close>: sorting by
  the negated weight is the comparator \<^verbatim>\<open>(a, b) => b.weight - a.weight\<close>.
\<close>

record ImportEntry =
  path :: string
  weight :: rat

record NamedImport = ImportEntry +
  name :: string

record DynamicImportManager =
  importMap :: "string \<Rightarrow> ImportEntry option"

definition registerComponent ::
  "string \<Rightarrow> string \<Rightarrow> rat option \<Rightarrow> DynamicImportManager \<Rightarrow> DynamicImportManager" where
  \<comment> \<open>the weight defaults to 1\<close>
  "registerComponent n p w m =
     m\<lparr>importMap := (importMap m)(n \<mapsto> \<lparr>path = p, weight = (case w of Some x \<Rightarrow> x | None \<Rightarrow> 1)\<rparr>)\<rparr>"

definition usedRegistered :: "DynamicImportManager \<Rightarrow> string list \<Rightarrow> NamedImport list" where
  \<comment> \<open>\<^verbatim>\<open>components\<close>: the used names that are registered, each with its entry\<close>
  "usedRegistered m usedComponents =
     map (\<lambda>n. \<lparr>path = path (the (importMap m n)), weight = weight (the (importMap m n)), name = n\<rparr>)
         (filter (\<lambda>n. importMap m n \<noteq> None) usedComponents)"

definition importLine :: "NamedImport \<Rightarrow> string" where
  "importLine c =
     (if weight c > 8 / 10
      then ''import '' @ name c @ '' from '' @ [CHR 0x27] @ path c @ [CHR 0x27] @ '';''
      else ''const '' @ name c @ '' = React.lazy(() => import('' @ [CHR 0x27] @ path c @ [CHR 0x27] @ ''));'')"

definition generateOptimizedImports :: "DynamicImportManager \<Rightarrow> string list \<Rightarrow> string" where
  "generateOptimizedImports m usedComponents =
     (let components = usedRegistered m usedComponents;
          sortedComponents = sort_key (\<lambda>c. - weight c) components;
          imports = map importLine sortedComponents;
          hasLazy = list_ex (\<lambda>c. weight c \<le> 8 / 10) sortedComponents;
          reactImport = (if hasLazy
                         then ''import React, { lazy, Suspense } from '' @ [CHR 0x27] @ ''react'' @ [CHR 0x27] @ '';''
                         else ''import React from '' @ [CHR 0x27] @ ''react'' @ [CHR 0x27] @ '';'')
      in join [CHR 0x0A] (reactImport # imports))"

section \<open>Templates as text and markers\<close>







section \<open>Evaluation of the stages\<close>

lemmas matcher_defs =
  match_variable_def match_conditional_def match_open_def match_loop_def match_helper_def
  startsWith_def not_close_def lazy_group_def is_space_def is_word_def

lemmas value_defs =
  resolveValue_def resolvePath_def trim_def endsWith_def is_numeric_literal_def is_digit_def
  number_string_def nat_digits.simps digit_char_def

text \<open>
  Each later stage, run alone on the text of the template, does what its comment says:
  the defect shown below is in the first stage, which runs before them.
\<close>

lemma processConditionals_alone:
  "processConditionals ''{{#if a == b}}X{{#else}}Y{{/if}}'' [(''a'', JNum 1), (''b'', JNum 1)] = ''X''
   \<and> processConditionals ''{{#if a == b}}X{{#else}}Y{{/if}}'' [(''a'', JNum 1), (''b'', JNum 2)] = ''Y''"
  by (simp add: matcher_defs conditionHolds_def value_defs)

lemma processLoops_alone:
  "processLoops ''{{#each items}}[{{item}}]{{/each}}''
     [(''items'', JArr 1 [JNum 1, JNum 2, JNum 3])] = ''[1][2][3]''
   \<and> processLoops ''{{#each items}}[{{item}}]{{/each}}'' [] = []"
  by (simp add: matcher_defs loopText_def variableText_def value_defs enumerate_eq_zip upt_rec)

lemma processHelpers_alone:
  "processHelpers newTemplateEngine ''{{unknownHelper x}}'' [(''x'', JNum 1)] = ''{{unknownHelper x}}''"
  by (simp add: matcher_defs helperText_def newTemplateEngine_def)

section \<open>Interpolation of a whole template\<close>





















section \<open>Rendering the templates of the specification\<close>

text \<open>
  C1. The specification expects \<^verbatim>\<open>X\<close> for \<^verbatim>\<open>{a:1, b:1}\<close> and \<^verbatim>\<open>Y\<close> for
  \<^verbatim>\<open>{a:1, b:2}\<close> from the template \<^verbatim>\<open>{{#if a == b}}X{{#else}}Y{{/if}}\<close>. The code
  returns \<^verbatim>\<open>XY\<close> for both, whatever helpers are registered: interpolation takes
  \<^verbatim>\<open>{{#if a == b}}\<close>, \<^verbatim>\<open>{{#else}}\<close> and \<^verbatim>\<open>{{/if}}\<close> for variables, finds none of
  them in the context and erases them, so the conditional stage sees \<^verbatim>\<open>XY\<close>.
\<close>

theorem render_conditional_both_branches:
  "render (registerTemplate ''t'' ''{{#if a == b}}X{{#else}}Y{{/if}}'' eng) ''t''
     [(''a'', JNum 1), (''b'', JNum 1)] = Inr ''XY''
   \<and> render (registerTemplate ''t'' ''{{#if a == b}}X{{#else}}Y{{/if}}'' eng) ''t''
     [(''a'', JNum 1), (''b'', JNum 2)] = Inr ''XY''"
  by (simp add: render_def registerTemplate_def matcher_defs variableText_def resolvePath_def)

text \<open>
  C2. The specification expects \<^verbatim>\<open>[1][2][3]\<close> for \<^verbatim>\<open>{items: [1,2,3]}\<close> and the
  empty string without \<^verbatim>\<open>items\<close> from \<^verbatim>\<open>{{#each items}}[{{item}}]{{/each}}\<close>. The
  code returns \<^verbatim>\<open>[]\<close> for both: interpolation erases the two loop markers and
  \<^verbatim>\<open>{{item}}\<close>, which is not a key of the context outside a loop.
\<close>

theorem render_loop_brackets_only:
  "render (registerTemplate ''t'' ''{{#each items}}[{{item}}]{{/each}}'' eng) ''t''
     [(''items'', JArr 1 [JNum 1, JNum 2, JNum 3])] = Inr ''[]''
   \<and> render (registerTemplate ''t'' ''{{#each items}}[{{item}}]{{/each}}'' eng) ''t'' [] = Inr ''[]''"
  by (simp add: render_def registerTemplate_def matcher_defs variableText_def resolvePath_def)

text \<open>
  C3. The specification expects the marker \<^verbatim>\<open>{{unknownHelper x}}\<close> back when no helper
  of that name is registered. The code returns the empty string for the context
  \<^verbatim>\<open>{x: 1}\<close>, whatever helpers are registered: interpolation looks the whole body
  \<^verbatim>\<open>unknownHelper x\<close> up as a key and erases the marker before the helper stage runs.
\<close>

theorem render_unknown_helper_erased:
  "render (registerTemplate ''t'' ''{{unknownHelper x}}'' eng) ''t'' [(''x'', JNum 1)] = Inr []"
  by (simp add: render_def registerTemplate_def matcher_defs variableText_def resolvePath_def)

text \<open>
  C4. Where no segment of a path names an inherited property, a path that does not resolve
  is written as the empty string: this is \<open>replaceVariables_pieces\<close> with
  \<^const>\<open>variableText\<close>, and the stages raise nothing. The claim, though, is about every
  path, and the code's \<^verbatim>\<open>obj[key]\<close> also reads what an object inherits: the guard
  \<^verbatim>\<open>obj && obj[key] !== undefined\<close> does not ask whether the key is the object's own.
  For the context \<^verbatim>\<open>{}\<close> the path \<^verbatim>\<open>constructor.name\<close> resolves to
  \<^verbatim>\<open>Object\<close>, and \<^verbatim>\<open>constructor.caller\<close> raises a \<^verbatim>\<open>TypeError\<close>, although
  neither is a key of the context. Inherited properties are outside the value model
  (see \<^const>\<open>getProp\<close>), so this defect is recorded without a theorem.
\<close>




section \<open>The registry\<close>

text \<open>
  C5. A template registered as the empty string is registered, and \<^verbatim>\<open>render\<close> still
  fails with \<^verbatim>\<open>Template not found\<close>: the test \<^verbatim>\<open>!template\<close> holds for the empty
  string as it does for \<^verbatim>\<open>undefined\<close>.
\<close>

theorem render_empty_template_not_found:
  "templates (registerTemplate ''t'' [] eng) ''t'' = Some []
   \<and> render (registerTemplate ''t'' [] eng) ''t'' ctx = Inl (Error ''Template not found: t'')"
  by (simp add: render_def registerTemplate_def)


section \<open>Import statements by usage weight\<close>

lemma sort_key_descending:
  "sorted_wrt (\<lambda>a b. weight b \<le> weight a) (sort_key (\<lambda>c. - weight c) (xs :: NamedImport list))"
proof -
  have "sorted (map (\<lambda>c. - weight c) (sort_key (\<lambda>c. - weight c) xs))"
    by (rule sorted_sort_key)
  then show ?thesis by (simp add: sorted_wrt_map)
qed

lemma eager_line_not_lazy_header:
  assumes "CHR '','' \<notin> set n"
  shows "''import '' @ n @ '' from '' @ [CHR 0x27] @ p @ [CHR 0x27] @ '';''
         \<noteq> ''import React, { lazy, Suspense } from '' @ [CHR 0x27] @ ''react'' @ [CHR 0x27] @ '';''"
  using assms by (auto simp: append_eq_Cons_conv)

lemma usedRegistered_entries:
  "c \<in> set (usedRegistered m used) \<Longrightarrow>
   name c \<in> set used \<and> importMap m (name c) = Some \<lparr>path = path c, weight = weight c\<rparr>"
  by (auto simp: usedRegistered_def)

lemma usedRegistered_names:
  "map name (usedRegistered m used) = filter (\<lambda>n. importMap m n \<noteq> None) used"
  by (simp add: usedRegistered_def comp_def)

text \<open>
  C6. \<^verbatim>\<open>generateOptimizedImports\<close> writes one header line and then one line for each
  used name that is registered (once per use), these lines in descending order of weight.
  A component of weight above 0.8 gets an eager \<^verbatim>\<open>import\<close>, one of weight at most
  0.8 a \<^verbatim>\<open>React.lazy\<close> wrapper. The header imports \<^verbatim>\<open>lazy\<close> and
  \<^verbatim>\<open>Suspense\<close> exactly when some component is lazy; it is the first line, and no line
  of a component whose name has no comma repeats it.
\<close>

theorem generateOptimizedImports_partition:
  "\<exists>sortedComponents.
     generateOptimizedImports m used
       = join [CHR 0x0A]
           ((if list_ex (\<lambda>c. weight c \<le> 8 / 10) (usedRegistered m used)
             then ''import React, { lazy, Suspense } from '' @ [CHR 0x27] @ ''react'' @ [CHR 0x27] @ '';''
             else ''import React from '' @ [CHR 0x27] @ ''react'' @ [CHR 0x27] @ '';'')
            # map importLine sortedComponents)
   \<and> mset sortedComponents = mset (usedRegistered m used)
   \<and> mset (map name sortedComponents) = mset (filter (\<lambda>n. importMap m n \<noteq> None) used)
   \<and> sorted_wrt (\<lambda>a b. weight b \<le> weight a) sortedComponents
   \<and> (\<forall>c \<in> set sortedComponents.
         importMap m (name c) = Some \<lparr>path = path c, weight = weight c\<rparr>
         \<and> importLine c
             = (if weight c > 8 / 10
                then ''import '' @ name c @ '' from '' @ [CHR 0x27] @ path c @ [CHR 0x27] @ '';''
                else ''const '' @ name c @ '' = React.lazy(() => import(''
                       @ [CHR 0x27] @ path c @ [CHR 0x27] @ ''));'')
         \<and> (CHR '','' \<notin> set (name c) \<longrightarrow>
              importLine c \<noteq> ''import React, { lazy, Suspense } from '' @ [CHR 0x27] @ ''react'' @ [CHR 0x27] @ '';''))"
proof -
  let ?cs = "usedRegistered m used"
  let ?sorted = "sort_key (\<lambda>c. - weight c) ?cs"
  have lazy: "list_ex (\<lambda>c. weight c \<le> 8 / 10) ?sorted = list_ex (\<lambda>c. weight c \<le> 8 / 10) ?cs"
    by (simp add: list_ex_iff)
  have out: "generateOptimizedImports m used
       = join [CHR 0x0A]
           ((if list_ex (\<lambda>c. weight c \<le> 8 / 10) ?cs
             then ''import React, { lazy, Suspense } from '' @ [CHR 0x27] @ ''react'' @ [CHR 0x27] @ '';''
             else ''import React from '' @ [CHR 0x27] @ ''react'' @ [CHR 0x27] @ '';'')
            # map importLine ?sorted)"
    unfolding generateOptimizedImports_def Let_def lazy by simp
  have ms: "mset ?sorted = mset ?cs" by simp
  have "mset (map name ?sorted) = image_mset name (mset ?sorted)" by simp
  also have "\<dots> = mset (map name ?cs)" by (simp only: ms mset_map)
  finally have names: "mset (map name ?sorted) = mset (filter (\<lambda>n. importMap m n \<noteq> None) used)"
    by (simp only: usedRegistered_names)
  have ord: "sorted_wrt (\<lambda>a b. weight b \<le> weight a) ?sorted"
    by (rule sort_key_descending)
  have each: "\<forall>c \<in> set ?sorted.
         importMap m (name c) = Some \<lparr>path = path c, weight = weight c\<rparr>
         \<and> importLine c
             = (if weight c > 8 / 10
                then ''import '' @ name c @ '' from '' @ [CHR 0x27] @ path c @ [CHR 0x27] @ '';''
                else ''const '' @ name c @ '' = React.lazy(() => import(''
                       @ [CHR 0x27] @ path c @ [CHR 0x27] @ ''));'')
         \<and> (CHR '','' \<notin> set (name c) \<longrightarrow>
              importLine c \<noteq> ''import React, { lazy, Suspense } from '' @ [CHR 0x27] @ ''react'' @ [CHR 0x27] @ '';'')"
  proof
    fix c assume "c \<in> set ?sorted"
    then have c: "c \<in> set ?cs" by simp
    have "CHR '','' \<notin> set (name c) \<longrightarrow>
              importLine c \<noteq> ''import React, { lazy, Suspense } from '' @ [CHR 0x27] @ ''react'' @ [CHR 0x27] @ '';''"
      using eager_line_not_lazy_header [of "name c" "path c"]
      by (auto simp: importLine_def)
    with usedRegistered_entries [OF c]
    show "importMap m (name c) = Some \<lparr>path = path c, weight = weight c\<rparr>
         \<and> importLine c
             = (if weight c > 8 / 10
                then ''import '' @ name c @ '' from '' @ [CHR 0x27] @ path c @ [CHR 0x27] @ '';''
                else ''const '' @ name c @ '' = React.lazy(() => import(''
                       @ [CHR 0x27] @ path c @ [CHR 0x27] @ ''));'')
         \<and> (CHR '','' \<notin> set (name c) \<longrightarrow>
              importLine c \<noteq> ''import React, { lazy, Suspense } from '' @ [CHR 0x27] @ ''react'' @ [CHR 0x27] @ '';'')"
      by (simp add: importLine_def)
  qed
  from out ms names ord each show ?thesis by blast
qed

text \<open>
  The witness: the weights of the specification, \<^verbatim>\<open>X\<close> at 0.9 and \<^verbatim>\<open>Y\<close> at 0.5,
  used in the order \<^verbatim>\<open>Y\<close>, \<^verbatim>\<open>Z\<close> (not registered), \<^verbatim>\<open>X\<close>.
\<close>

theorem generateOptimizedImports_partition_witness:
  "usedRegistered
     (registerComponent ''Y'' ''./Y'' (Some (5 / 10))
       (registerComponent ''X'' ''./X'' (Some (9 / 10)) \<lparr>importMap = Map.empty\<rparr>))
     [''Y'', ''Z'', ''X'']
   = [\<lparr>path = ''./Y'', weight = 5 / 10, name = ''Y''\<rparr>,
      \<lparr>path = ''./X'', weight = 9 / 10, name = ''X''\<rparr>]
   \<and> generateOptimizedImports
       (registerComponent ''Y'' ''./Y'' (Some (5 / 10))
         (registerComponent ''X'' ''./X'' (Some (9 / 10)) \<lparr>importMap = Map.empty\<rparr>))
       [''Y'', ''Z'', ''X'']
     = join [CHR 0x0A]
         [''import React, { lazy, Suspense } from '' @ [CHR 0x27] @ ''react'' @ [CHR 0x27] @ '';'',
          ''import X from '' @ [CHR 0x27] @ ''./X'' @ [CHR 0x27] @ '';'',
          ''const Y = React.lazy(() => import('' @ [CHR 0x27] @ ''./Y'' @ [CHR 0x27] @ ''));'']"
proof -
  let ?m = "registerComponent ''Y'' ''./Y'' (Some (5 / 10))
             (registerComponent ''X'' ''./X'' (Some (9 / 10)) \<lparr>importMap = Map.empty\<rparr>)"
  let ?used = "[''Y'', ''Z'', ''X'']"
  let ?X = "\<lparr>path = ''./X'', weight = 9 / 10, name = ''X''\<rparr> :: NamedImport"
  let ?Y = "\<lparr>path = ''./Y'', weight = 5 / 10, name = ''Y''\<rparr> :: NamedImport"
  have comps: "usedRegistered ?m ?used = [?Y, ?X]"
    by (simp add: usedRegistered_def registerComponent_def)
  from generateOptimizedImports_partition [of ?m ?used]
  obtain sc where out: "generateOptimizedImports ?m ?used
       = join [CHR 0x0A]
           ((if list_ex (\<lambda>c. weight c \<le> 8 / 10) (usedRegistered ?m ?used)
             then ''import React, { lazy, Suspense } from '' @ [CHR 0x27] @ ''react'' @ [CHR 0x27] @ '';''
             else ''import React from '' @ [CHR 0x27] @ ''react'' @ [CHR 0x27] @ '';'')
            # map importLine sc)"
    and ms: "mset sc = mset (usedRegistered ?m ?used)"
    and ord: "sorted_wrt (\<lambda>a b. weight b \<le> weight a) sc"
    by blast
  from ms have ms': "mset sc = mset [?Y, ?X]" unfolding comps .
  from mset_eq_length [OF ms'] have "length sc = Suc (Suc 0)" by simp
  then obtain a b where sc: "sc = [a, b]"
    by (metis length_0_conv length_Suc_conv)
  from ms' have "{#a, b#} = {#?Y, ?X#}" by (simp add: sc)
  then have "(a = ?X \<and> b = ?Y) \<or> (a = ?Y \<and> b = ?X)"
    by (auto simp: add_eq_conv_ex)
  moreover from ord have "weight b \<le> weight a" by (simp add: sc)
  ultimately have "sc = [?X, ?Y]" by (auto simp: sc)
  with out comps show ?thesis by (simp add: importLine_def)
qed

section \<open>Dispatch of the code generator\<close>

lemma selectedTemplateName_cases:
  "(activeTemplate g = Some n \<and> n \<noteq> [])
   \<or> (activeTemplate g = None \<and> generator_templates g = (n, c0) # rest)
   \<Longrightarrow> selectedTemplateName g = Some n"
  by (auto simp: selectedTemplateName_def getDefaultTemplateName_def)

text \<open>
  C8, as amended. With an active configuration whose name \<open>n\<close> is not the empty string,
  or with none set and \<open>n\<close> the first registered one, \<^verbatim>\<open>generateComponent\<close> is the
  three renders of \<^verbatim>\<open>n:component\<close>, \<^verbatim>\<open>n:styles\<close> and \<^verbatim>\<open>n:index\<close> in this order:
  the first error among them is the error of the call, and when all three succeed the
  call returns their texts, under file names that follow the language of the configuration
  registered as \<open>n\<close> (the first registered one, when none is active). A generator with
  nothing registered fails.
\<close>

theorem generateComponent_dispatch:
  "(((activeTemplate g = Some n \<and> n \<noteq> [])
      \<or> (activeTemplate g = None \<and> generator_templates g = (n, c0) # rest))
     \<longrightarrow> generateComponent an gn g node opts
       = (case render (templateEngine g) (n @ '':component'')
                 (component_context (an node) (gn node) node opts) of
            Inl e \<Rightarrow> Inl e
          | Inr mainCode \<Rightarrow>
          (case render (templateEngine g) (n @ '':styles'')
                 (component_context (an node) (gn node) node opts) of
            Inl e \<Rightarrow> Inl e
          | Inr styleCode \<Rightarrow>
          (case render (templateEngine g) (n @ '':index'')
                 (component_context (an node) (gn node) node opts) of
            Inl e \<Rightarrow> Inl e
          | Inr indexCode \<Rightarrow>
          (case map_of (generator_templates g) n of
            None \<Rightarrow> Inl TypeError
          | Some config \<Rightarrow>
              Inr \<lparr>main = \<lparr>content = mainCode,
                            filename = or_else (componentName opts) (gn node) @ ''.''
                              @ (if language config = Typescript then ''tsx'' else ''jsx'')\<rparr>,
                   styles_file = \<lparr>content = styleCode,
                                   filename = (if isModule opts = Some True
                                               then or_else (componentName opts) (gn node) @ ''.module.css''
                                               else or_else (componentName opts) (gn node) @ ''.css'')\<rparr>,
                   index_file = \<lparr>content = indexCode,
                                  filename = ''index.''
                                    @ (if language config = Typescript then ''ts'' else ''js'')\<rparr>\<rparr>)))))
   \<and> (activeTemplate g = None \<and> generator_templates g = (n, c0) # rest
        \<longrightarrow> map_of (generator_templates g) n = Some c0)
   \<and> isl (generateComponent an gn newCodeGenerator node opts)"
proof (intro conjI impI)
  assume "(activeTemplate g = Some n \<and> n \<noteq> [])
      \<or> (activeTemplate g = None \<and> generator_templates g = (n, c0) # rest)"
  then have sel: "selectedTemplateName g = Some n"
    by (rule selectedTemplateName_cases)
  show "generateComponent an gn g node opts
       = (case render (templateEngine g) (n @ '':component'')
                 (component_context (an node) (gn node) node opts) of
            Inl e \<Rightarrow> Inl e
          | Inr mainCode \<Rightarrow>
          (case render (templateEngine g) (n @ '':styles'')
                 (component_context (an node) (gn node) node opts) of
            Inl e \<Rightarrow> Inl e
          | Inr styleCode \<Rightarrow>
          (case render (templateEngine g) (n @ '':index'')
                 (component_context (an node) (gn node) node opts) of
            Inl e \<Rightarrow> Inl e
          | Inr indexCode \<Rightarrow>
          (case map_of (generator_templates g) n of
            None \<Rightarrow> Inl TypeError
          | Some config \<Rightarrow>
              Inr \<lparr>main = \<lparr>content = mainCode,
                            filename = or_else (componentName opts) (gn node) @ ''.''
                              @ (if language config = Typescript then ''tsx'' else ''jsx'')\<rparr>,
                   styles_file = \<lparr>content = styleCode,
                                   filename = (if isModule opts = Some True
                                               then or_else (componentName opts) (gn node) @ ''.module.css''
                                               else or_else (componentName opts) (gn node) @ ''.css'')\<rparr>,
                   index_file = \<lparr>content = indexCode,
                                  filename = ''index.''
                                    @ (if language config = Typescript then ''ts'' else ''js'')\<rparr>\<rparr>))))"
    by (simp add: generateComponent_def sel name_text_def Let_def
        split: sum.splits option.splits)
next
  assume "activeTemplate g = None \<and> generator_templates g = (n, c0) # rest"
  then show "map_of (generator_templates g) n = Some c0" by simp
next
  show "isl (generateComponent an gn newCodeGenerator node opts)"
    by (simp add: generateComponent_def selectedTemplateName_def getDefaultTemplateName_def
        newCodeGenerator_def newTemplateEngine_def name_text_def render_def)
qed

text \<open>
  The witness: of two configurations \<^verbatim>\<open>A\<close> and \<^verbatim>\<open>B\<close>, registered in this order,
  \<^verbatim>\<open>B\<close> is used once it is made active, and \<^verbatim>\<open>A\<close>, the first registered, while
  none is.
\<close>

theorem generateComponent_dispatch_witness:
  "setActiveTemplate ''B''
     (generator_registerTemplate
        \<lparr>config_name = ''B'', framework = Vue, language = Typescript,
            config_templates = \<lparr>component = ''b {{componentName}}'', page = ''p'',
                                styles = ''.{{componentName}}'', index = ''x''\<rparr>,
            config_helpers = None\<rparr>
        (generator_registerTemplate
        \<lparr>config_name = ''A'', framework = React, language = Javascript,
            config_templates = \<lparr>component = ''a {{componentName}}'', page = ''p'',
                                styles = ''s'', index = ''i''\<rparr>,
            config_helpers = None\<rparr>
        newCodeGenerator))
   = Inr ((generator_registerTemplate
        \<lparr>config_name = ''B'', framework = Vue, language = Typescript,
            config_templates = \<lparr>component = ''b {{componentName}}'', page = ''p'',
                                styles = ''.{{componentName}}'', index = ''x''\<rparr>,
            config_helpers = None\<rparr>
        (generator_registerTemplate
        \<lparr>config_name = ''A'', framework = React, language = Javascript,
            config_templates = \<lparr>component = ''a {{componentName}}'', page = ''p'',
                                styles = ''s'', index = ''i''\<rparr>,
            config_helpers = None\<rparr>
        newCodeGenerator))\<lparr>activeTemplate := Some ''B''\<rparr>)
   \<and> generateComponent (\<lambda>node. []) (\<lambda>node. ''Box'')
       ((generator_registerTemplate
        \<lparr>config_name = ''B'', framework = Vue, language = Typescript,
            config_templates = \<lparr>component = ''b {{componentName}}'', page = ''p'',
                                styles = ''.{{componentName}}'', index = ''x''\<rparr>,
            config_helpers = None\<rparr>
        (generator_registerTemplate
        \<lparr>config_name = ''A'', framework = React, language = Javascript,
            config_templates = \<lparr>component = ''a {{componentName}}'', page = ''p'',
                                styles = ''s'', index = ''i''\<rparr>,
            config_helpers = None\<rparr>
        newCodeGenerator))\<lparr>activeTemplate := Some ''B''\<rparr>)
       \<lparr>schema_id = ''1'', schema_type = ''div'', props = [], style = []\<rparr>
       \<lparr>componentName = None, description = None, isModule = None\<rparr>
     = Inr \<lparr>main = \<lparr>content = ''b Box'', filename = ''Box.tsx''\<rparr>,
            styles_file = \<lparr>content = ''.Box'', filename = ''Box.css''\<rparr>,
            index_file = \<lparr>content = ''x'', filename = ''index.ts''\<rparr>\<rparr>
   \<and> activeTemplate (generator_registerTemplate
        \<lparr>config_name = ''B'', framework = Vue, language = Typescript,
            config_templates = \<lparr>component = ''b {{componentName}}'', page = ''p'',
                                styles = ''.{{componentName}}'', index = ''x''\<rparr>,
            config_helpers = None\<rparr>
        (generator_registerTemplate
        \<lparr>config_name = ''A'', framework = React, language = Javascript,
            config_templates = \<lparr>component = ''a {{componentName}}'', page = ''p'',
                                styles = ''s'', index = ''i''\<rparr>,
            config_helpers = None\<rparr>
        newCodeGenerator)) = None
   \<and> generateComponent (\<lambda>node. []) (\<lambda>node. ''Box'')
       (generator_registerTemplate
        \<lparr>config_name = ''B'', framework = Vue, language = Typescript,
            config_templates = \<lparr>component = ''b {{componentName}}'', page = ''p'',
                                styles = ''.{{componentName}}'', index = ''x''\<rparr>,
            config_helpers = None\<rparr>
        (generator_registerTemplate
        \<lparr>config_name = ''A'', framework = React, language = Javascript,
            config_templates = \<lparr>component = ''a {{componentName}}'', page = ''p'',
                                styles = ''s'', index = ''i''\<rparr>,
            config_helpers = None\<rparr>
        newCodeGenerator))
       \<lparr>schema_id = ''1'', schema_type = ''div'', props = [], style = []\<rparr>
       \<lparr>componentName = None, description = None, isModule = None\<rparr>
     = Inr \<lparr>main = \<lparr>content = ''a Box'', filename = ''Box.jsx''\<rparr>,
            styles_file = \<lparr>content = ''s'', filename = ''Box.css''\<rparr>,
            index_file = \<lparr>content = ''i'', filename = ''index.js''\<rparr>\<rparr>"
proof -
  let ?A = "\<lparr>config_name = ''A'', framework = React, language = Javascript,
            config_templates = \<lparr>component = ''a {{componentName}}'', page = ''p'',
                                styles = ''s'', index = ''i''\<rparr>,
            config_helpers = None\<rparr>"
  let ?B = "\<lparr>config_name = ''B'', framework = Vue, language = Typescript,
            config_templates = \<lparr>component = ''b {{componentName}}'', page = ''p'',
                                styles = ''.{{componentName}}'', index = ''x''\<rparr>,
            config_helpers = None\<rparr>"
  let ?base = "generator_registerTemplate ?B (generator_registerTemplate ?A newCodeGenerator)"
  let ?act = "?base\<lparr>activeTemplate := Some ''B''\<rparr>"
  let ?node = "\<lparr>schema_id = ''1'', schema_type = ''div'', props = [], style = []\<rparr>"
  let ?opts = "\<lparr>componentName = None, description = None, isModule = None\<rparr>"
  have act: "setActiveTemplate ''B'' ?base = Inr ?act"
    by (simp add: setActiveTemplate_def generator_registerTemplate_def newCodeGenerator_def
        template_entries_def)
  have none: "activeTemplate ?base = None"
    by (simp add: generator_registerTemplate_def newCodeGenerator_def)
  have first: "generator_templates ?base = [(''A'', ?A), (''B'', ?B)]"
    by (simp add: generator_registerTemplate_def newCodeGenerator_def)
  have selB: "(activeTemplate ?act = Some ''B'' \<and> ''B'' \<noteq> [])
      \<or> (activeTemplate ?act = None \<and> generator_templates ?act = (''B'', ?A) # [])"
    by simp
  have selA: "(activeTemplate ?base = Some ''A'' \<and> ''A'' \<noteq> [])
      \<or> (activeTemplate ?base = None \<and> generator_templates ?base = (''A'', ?A) # [(''B'', ?B)])"
    using none first by simp
  from generateComponent_dispatch
         [of ?act "''B''" ?A "[]" "\<lambda>node. []" "\<lambda>node. ''Box''" ?node ?opts] selB
  have "generateComponent (\<lambda>node. []) (\<lambda>node. ''Box'') ?act ?node ?opts
        = (case render (templateEngine ?act) (''B'' @ '':component'')
                 (component_context [] ''Box'' ?node ?opts) of
            Inl e \<Rightarrow> Inl e
          | Inr mainCode \<Rightarrow>
          (case render (templateEngine ?act) (''B'' @ '':styles'')
                 (component_context [] ''Box'' ?node ?opts) of
            Inl e \<Rightarrow> Inl e
          | Inr styleCode \<Rightarrow>
          (case render (templateEngine ?act) (''B'' @ '':index'')
                 (component_context [] ''Box'' ?node ?opts) of
            Inl e \<Rightarrow> Inl e
          | Inr indexCode \<Rightarrow>
          (case map_of (generator_templates ?act) ''B'' of
            None \<Rightarrow> Inl TypeError
          | Some config \<Rightarrow>
              Inr \<lparr>main = \<lparr>content = mainCode,
                            filename = or_else (componentName ?opts) ''Box'' @ ''.''
                              @ (if language config = Typescript then ''tsx'' else ''jsx'')\<rparr>,
                   styles_file = \<lparr>content = styleCode,
                                   filename = (if isModule ?opts = Some True
                                               then or_else (componentName ?opts) ''Box'' @ ''.module.css''
                                               else or_else (componentName ?opts) ''Box'' @ ''.css'')\<rparr>,
                   index_file = \<lparr>content = indexCode,
                                  filename = ''index.''
                                    @ (if language config = Typescript then ''ts'' else ''js'')\<rparr>\<rparr>))))"
    by blast
  then have genB: "generateComponent (\<lambda>node. []) (\<lambda>node. ''Box'') ?act ?node ?opts
        = Inr \<lparr>main = \<lparr>content = ''b Box'', filename = ''Box.tsx''\<rparr>,
            styles_file = \<lparr>content = ''.Box'', filename = ''Box.css''\<rparr>,
            index_file = \<lparr>content = ''x'', filename = ''index.ts''\<rparr>\<rparr>"
    by (simp add: generator_registerTemplate_def
        newCodeGenerator_def newTemplateEngine_def template_entries_def registerTemplate_def
        or_else_def component_context_def option_entries_def render_def
        matcher_defs variableText_def resolvePath_def Let_def)
  from generateComponent_dispatch
         [of ?base "''A''" ?A "[(''B'', ?B)]" "\<lambda>node. []" "\<lambda>node. ''Box''" ?node ?opts] selA
  have "generateComponent (\<lambda>node. []) (\<lambda>node. ''Box'') ?base ?node ?opts
        = (case render (templateEngine ?base) (''A'' @ '':component'')
                 (component_context [] ''Box'' ?node ?opts) of
            Inl e \<Rightarrow> Inl e
          | Inr mainCode \<Rightarrow>
          (case render (templateEngine ?base) (''A'' @ '':styles'')
                 (component_context [] ''Box'' ?node ?opts) of
            Inl e \<Rightarrow> Inl e
          | Inr styleCode \<Rightarrow>
          (case render (templateEngine ?base) (''A'' @ '':index'')
                 (component_context [] ''Box'' ?node ?opts) of
            Inl e \<Rightarrow> Inl e
          | Inr indexCode \<Rightarrow>
          (case map_of (generator_templates ?base) ''A'' of
            None \<Rightarrow> Inl TypeError
          | Some config \<Rightarrow>
              Inr \<lparr>main = \<lparr>content = mainCode,
                            filename = or_else (componentName ?opts) ''Box'' @ ''.''
                              @ (if language config = Typescript then ''tsx'' else ''jsx'')\<rparr>,
                   styles_file = \<lparr>content = styleCode,
                                   filename = (if isModule ?opts = Some True
                                               then or_else (componentName ?opts) ''Box'' @ ''.module.css''
                                               else or_else (componentName ?opts) ''Box'' @ ''.css'')\<rparr>,
                   index_file = \<lparr>content = indexCode,
                                  filename = ''index.''
                                    @ (if language config = Typescript then ''ts'' else ''js'')\<rparr>\<rparr>))))"
    by blast
  then have genA: "generateComponent (\<lambda>node. []) (\<lambda>node. ''Box'') ?base ?node ?opts
        = Inr \<lparr>main = \<lparr>content = ''a Box'', filename = ''Box.jsx''\<rparr>,
            styles_file = \<lparr>content = ''s'', filename = ''Box.css''\<rparr>,
            index_file = \<lparr>content = ''i'', filename = ''index.js''\<rparr>\<rparr>"
    by (simp add: generator_registerTemplate_def
        newCodeGenerator_def newTemplateEngine_def template_entries_def registerTemplate_def
        or_else_def component_context_def option_entries_def render_def
        matcher_defs variableText_def resolvePath_def Let_def)
  show ?thesis by (rule conjI [OF act conjI [OF genB conjI [OF none genA]]])
qed

text \<open>
  The counterexamples to C8 as stated. The failure of a fresh generator is the one
  \<^verbatim>\<open>render\<close> raises for an unregistered template name: it names a template
  (\<^verbatim>\<open>undefined:component\<close>), not the missing generator. And a configuration registered
  under the empty name, second, and made active is not the one used: \<^verbatim>\<open>||\<close> takes
  its name for no name and the first registered configuration is used.
\<close>

theorem generateComponent_no_generator_counterexample:
  "generateComponent (\<lambda>node. []) (\<lambda>node. ''Box'') newCodeGenerator
     \<lparr>schema_id = ''1'', schema_type = ''div'', props = [], style = []\<rparr>
     \<lparr>componentName = None, description = None, isModule = None\<rparr>
   = Inl (Error ''Template not found: undefined:component'')
   \<and> render (templateEngine newCodeGenerator) ''undefined:component'' []
     = Inl (Error ''Template not found: undefined:component'')
   \<and> setActiveTemplate []
     (generator_registerTemplate
        \<lparr>config_name = [], framework = Svelte, language = Typescript,
            config_templates = \<lparr>component = ''e {{componentName}}'', page = ''p'',
                                styles = ''t'', index = ''y''\<rparr>,
            config_helpers = None\<rparr>
        (generator_registerTemplate
        \<lparr>config_name = ''A'', framework = React, language = Javascript,
            config_templates = \<lparr>component = ''a {{componentName}}'', page = ''p'',
                                styles = ''s'', index = ''i''\<rparr>,
            config_helpers = None\<rparr>
        newCodeGenerator))
     = Inr ((generator_registerTemplate
        \<lparr>config_name = [], framework = Svelte, language = Typescript,
            config_templates = \<lparr>component = ''e {{componentName}}'', page = ''p'',
                                styles = ''t'', index = ''y''\<rparr>,
            config_helpers = None\<rparr>
        (generator_registerTemplate
        \<lparr>config_name = ''A'', framework = React, language = Javascript,
            config_templates = \<lparr>component = ''a {{componentName}}'', page = ''p'',
                                styles = ''s'', index = ''i''\<rparr>,
            config_helpers = None\<rparr>
        newCodeGenerator))\<lparr>activeTemplate := Some []\<rparr>)
   \<and> generateComponent (\<lambda>node. []) (\<lambda>node. ''Box'')
       ((generator_registerTemplate
        \<lparr>config_name = [], framework = Svelte, language = Typescript,
            config_templates = \<lparr>component = ''e {{componentName}}'', page = ''p'',
                                styles = ''t'', index = ''y''\<rparr>,
            config_helpers = None\<rparr>
        (generator_registerTemplate
        \<lparr>config_name = ''A'', framework = React, language = Javascript,
            config_templates = \<lparr>component = ''a {{componentName}}'', page = ''p'',
                                styles = ''s'', index = ''i''\<rparr>,
            config_helpers = None\<rparr>
        newCodeGenerator))\<lparr>activeTemplate := Some []\<rparr>)
       \<lparr>schema_id = ''1'', schema_type = ''div'', props = [], style = []\<rparr>
       \<lparr>componentName = None, description = None, isModule = None\<rparr>
     = Inr \<lparr>main = \<lparr>content = ''a Box'', filename = ''Box.jsx''\<rparr>,
            styles_file = \<lparr>content = ''s'', filename = ''Box.css''\<rparr>,
            index_file = \<lparr>content = ''i'', filename = ''index.js''\<rparr>\<rparr>"
  by (simp add: generateComponent_def selectedTemplateName_def getDefaultTemplateName_def
      setActiveTemplate_def generator_registerTemplate_def
      newCodeGenerator_def newTemplateEngine_def template_entries_def registerTemplate_def
      name_text_def or_else_def component_context_def option_entries_def render_def
      matcher_defs variableText_def resolvePath_def Let_def)

end
